theory Spec2Isabelle
  imports Main
begin

section \<open>JavaScript values used by the WS2P module\<close>

text \<open>
  The module \<^verbatim>\<open>app/modules/ws2p/index.ts\<close> works on a configuration object whose
  properties may be missing. A missing property (\<^verbatim>\<open>undefined\<close>, \<^verbatim>\<open>null\<close>, or deleted)
  is \<open>None\<close>. A JavaScript number that holds a port is an integer or \<^verbatim>\<open>NaN\<close> (what
  \<^verbatim>\<open>parseInt\<close> gives on a non-numeric option).
\<close>

datatype jsnum = Num int | NaN

text \<open>Truthiness, as the operators \<^verbatim>\<open>!\<close>, \<^verbatim>\<open>&&\<close>, \<^verbatim>\<open>||\<close> and \<^verbatim>\<open>if\<close> see it.\<close>

fun truthy_str :: "string option \<Rightarrow> bool" where
  "truthy_str None = False"
| "truthy_str (Some s) = (s \<noteq> [])"

fun truthy_num :: "jsnum option \<Rightarrow> bool" where
  "truthy_num None = False"
| "truthy_num (Some NaN) = False"
| "truthy_num (Some (Num n)) = (n \<noteq> 0)"

fun truthy_bool :: "bool option \<Rightarrow> bool" where
  "truthy_bool None = False"
| "truthy_bool (Some b) = b"

text \<open>
  Number to string, as \<^verbatim>\<open>Array.prototype.join\<close> converts an integer element.
  \<open>digit_char\<close> is applied to numbers below 10 only.
\<close>

definition digit_char :: "nat \<Rightarrow> char" where
  "digit_char d = ''0123456789'' ! d"

fun string_of_nat :: "nat \<Rightarrow> string" where
  "string_of_nat n =
     (if n < 10 then [digit_char n]
      else string_of_nat (n div 10) @ [digit_char (n mod 10)])"

declare string_of_nat.simps [simp del]

fun string_of_jsnum :: "jsnum \<Rightarrow> string" where
  "string_of_jsnum NaN = ''NaN''"
| "string_of_jsnum (Num i) =
     (if i < 0 then CHR ''-'' # string_of_nat (nat (- i)) else string_of_nat (nat i))"

text \<open>
  The elements the module puts into an array before joining it. \<^verbatim>\<open>join\<close> renders
  \<^verbatim>\<open>undefined\<close> and \<^verbatim>\<open>null\<close> as the empty string.
\<close>

datatype jsval = JUndefined | JStr string | JNum jsnum

fun jsval_to_string :: "jsval \<Rightarrow> string" where
  "jsval_to_string JUndefined = []"
| "jsval_to_string (JStr s) = s"
| "jsval_to_string (JNum n) = string_of_jsnum n"

fun join :: "string \<Rightarrow> jsval list \<Rightarrow> string" where
  "join sep [] = []"
| "join sep [v] = jsval_to_string v"
| "join sep (v # w # vs) = jsval_to_string v @ sep @ join sep (w # vs)"

definition str_or_undefined :: "string option \<Rightarrow> jsval" where
  "str_or_undefined x = (case x of None \<Rightarrow> JUndefined | Some s \<Rightarrow> JStr s)"

definition num_or_undefined :: "jsnum option \<Rightarrow> jsval" where
  "num_or_undefined x = (case x of None \<Rightarrow> JUndefined | Some n \<Rightarrow> JNum n)"

section \<open>Configuration\<close>

text \<open>
  \<^verbatim>\<open>conf.ws2p\<close>: the properties that \<^verbatim>\<open>index.ts\<close> reads or writes. The enclosing
  configuration object \<^verbatim>\<open>WS2PConfDTO\<close> has the single property \<^verbatim>\<open>ws2p\<close> of interest;
  whatever else it carries is the record's extension part.
\<close>

record ws2p_conf =
  uuid :: "string option"
  privateAccess :: "bool option"
  publicAccess :: "bool option"
  upnp :: "bool option"
  host :: "string option"
  port :: "jsnum option"
  remotehost :: "string option"
  remoteport :: "jsnum option"
  maxPrivate :: "jsnum option"
  maxPublic :: "jsnum option"
  preferedNodes :: "string list option"
  privilegedNodes :: "string list option"

record WS2PConfDTO =
  ws2p :: "ws2p_conf option"

text \<open>The command-line options object \<^verbatim>\<open>program\<close>, as far as \<^verbatim>\<open>onLoading\<close> reads it.\<close>

record program =
  ws2pHost :: "string option"
  ws2pPort :: "jsnum option"
  ws2pRemotePort :: "jsnum option"
  ws2pRemoteHost :: "string option"
  ws2pUpnp :: "bool option"
  ws2pNoupnp :: "bool option"
  ws2pMaxPrivate :: "jsnum option"
  ws2pMaxPublic :: "jsnum option"
  ws2pPrivate :: "bool option"
  ws2pPublic :: "bool option"
  ws2pNoPrivate :: "bool option"
  ws2pNoPublic :: "bool option"
  ws2pPreferedAdd :: "string option"
  ws2pPreferedRm :: "string option"
  ws2pPrivilegedAdd :: "string option"
  ws2pPrivilegedRm :: "string option"

subsection \<open>\<^verbatim>\<open>config.onLoading\<close>\<close>

text \<open>
  \<^verbatim>\<open>nuuid.v4().slice(0,8)\<close>: the generator is the library \<^verbatim>\<open>node-uuid\<close>; the string it
  returns is a parameter.
\<close>

definition fresh_uuid :: "string \<Rightarrow> string" where
  "fresh_uuid v4 = take 8 v4"

text \<open>\<^verbatim>\<open>parseInt\<close> of a value that is already an integer number or \<^verbatim>\<open>NaN\<close>.\<close>

definition parseInt :: "jsnum \<Rightarrow> jsnum" where
  "parseInt n = n"

text \<open>Lines 37 to 46: the default object and the missing values.\<close>

definition default_ws2p :: "string \<Rightarrow> ws2p_conf" where
  "default_ws2p v4 =
     \<lparr> uuid = Some (fresh_uuid v4), privateAccess = Some True, publicAccess = Some False,
       upnp = None, host = None, port = None, remotehost = None, remoteport = None,
       maxPrivate = None, maxPublic = None, preferedNodes = None, privilegedNodes = None \<rparr>"

definition fill_missing :: "string \<Rightarrow> ws2p_conf \<Rightarrow> ws2p_conf" where
  "fill_missing v4 c =
     (let c1 = c\<lparr>uuid := (if truthy_str (uuid c) then uuid c else Some (fresh_uuid v4))\<rparr>;
          c2 = (if privateAccess c1 = None then c1\<lparr>privateAccess := Some True\<rparr> else c1);
          c3 = (if publicAccess c2 = None then c2\<lparr>publicAccess := Some False\<rparr> else c2)
      in c3)"

text \<open>Lines 48 to 59: the command-line options, in the order of the source.\<close>

definition apply_options :: "program \<Rightarrow> ws2p_conf \<Rightarrow> ws2p_conf" where
  "apply_options p c =
     (let c1 = (case ws2pHost p of None \<Rightarrow> c | Some h \<Rightarrow> c\<lparr>host := Some h\<rparr>);
          c2 = (case ws2pPort p of None \<Rightarrow> c1 | Some n \<Rightarrow> c1\<lparr>port := Some (parseInt n)\<rparr>);
          c3 = (case ws2pRemotePort p of None \<Rightarrow> c2 | Some n \<Rightarrow> c2\<lparr>remoteport := Some n\<rparr>);
          c4 = (case ws2pRemoteHost p of None \<Rightarrow> c3 | Some h \<Rightarrow> c3\<lparr>remotehost := Some h\<rparr>);
          c5 = (case ws2pUpnp p of None \<Rightarrow> c4 | Some _ \<Rightarrow> c4\<lparr>upnp := Some True\<rparr>);
          c6 = (case ws2pNoupnp p of None \<Rightarrow> c5 | Some _ \<Rightarrow> c5\<lparr>upnp := Some False\<rparr>);
          c7 = (case ws2pMaxPrivate p of None \<Rightarrow> c6 | Some n \<Rightarrow> c6\<lparr>maxPrivate := Some n\<rparr>);
          c8 = (case ws2pMaxPublic p of None \<Rightarrow> c7 | Some n \<Rightarrow> c7\<lparr>maxPublic := Some n\<rparr>);
          c9 = (case ws2pPrivate p of None \<Rightarrow> c8 | Some _ \<Rightarrow> c8\<lparr>privateAccess := Some True\<rparr>);
          c10 = (case ws2pPublic p of None \<Rightarrow> c9 | Some _ \<Rightarrow> c9\<lparr>publicAccess := Some True\<rparr>);
          c11 = (case ws2pNoPrivate p of None \<Rightarrow> c10 | Some _ \<Rightarrow> c10\<lparr>privateAccess := Some False\<rparr>);
          c12 = (case ws2pNoPublic p of None \<Rightarrow> c11 | Some _ \<Rightarrow> c11\<lparr>publicAccess := Some False\<rparr>)
      in c12)"

text \<open>
  Lines 61 to 85: \<^verbatim>\<open>push\<close> appends; \<^verbatim>\<open>indexOf\<close> followed by \<^verbatim>\<open>splice(index, 1)\<close> removes
  the first occurrence, when there is one.
\<close>

definition or_empty :: "string list option \<Rightarrow> string list" where
  "or_empty x = (case x of None \<Rightarrow> [] | Some xs \<Rightarrow> xs)"

definition apply_prefered :: "program \<Rightarrow> ws2p_conf \<Rightarrow> ws2p_conf" where
  "apply_prefered p c =
     (let c1 = (case ws2pPreferedAdd p of None \<Rightarrow> c
                | Some k \<Rightarrow> c\<lparr>preferedNodes := Some (or_empty (preferedNodes c) @ [k])\<rparr>);
          c2 = (case ws2pPreferedRm p of None \<Rightarrow> c1
                | Some k \<Rightarrow> c1\<lparr>preferedNodes := Some (remove1 k (or_empty (preferedNodes c1)))\<rparr>)
      in c2)"

definition apply_privileged :: "program \<Rightarrow> ws2p_conf \<Rightarrow> ws2p_conf" where
  "apply_privileged p c =
     (let c1 = (case ws2pPrivilegedAdd p of None \<Rightarrow> c
                | Some k \<Rightarrow> c\<lparr>privilegedNodes := Some (or_empty (privilegedNodes c) @ [k])\<rparr>);
          c2 = (case ws2pPrivilegedRm p of None \<Rightarrow> c1
                | Some k \<Rightarrow> c1\<lparr>privilegedNodes := Some (remove1 k (or_empty (privilegedNodes c1)))\<rparr>)
      in c2)"

text \<open>Lines 87 to 90.\<close>

definition default_upnp :: "ws2p_conf \<Rightarrow> ws2p_conf" where
  "default_upnp c = (if upnp c = None then c\<lparr>upnp := Some True\<rparr> else c)"

text \<open>
  The hook. \<open>v4a\<close> is what \<^verbatim>\<open>nuuid.v4()\<close> returns in the default object (line 38), \<open>v4b\<close>
  what it returns on line 44; each is consulted only where the source calls it.
\<close>

definition onLoading :: "string \<Rightarrow> string \<Rightarrow> program \<Rightarrow> 'a WS2PConfDTO_scheme \<Rightarrow> 'a WS2PConfDTO_scheme" where
  "onLoading v4a v4b p conf =
     (let c0 = (case ws2p conf of None \<Rightarrow> default_ws2p v4a | Some c \<Rightarrow> c)
      in conf\<lparr>ws2p := Some (default_upnp (apply_privileged p (apply_prefered p
                 (apply_options p (fill_missing v4b c0)))))\<rparr>)"

subsection \<open>\<^verbatim>\<open>config.beforeSave\<close>\<close>

definition beforeSave_ws2p :: "ws2p_conf \<Rightarrow> ws2p_conf" where
  "beforeSave_ws2p c =
     (let c1 = (if \<not> truthy_str (host c) then c\<lparr>host := None\<rparr> else c);
          c2 = (if \<not> truthy_num (port c1) then c1\<lparr>port := None\<rparr> else c1);
          c3 = (if \<not> truthy_num (remoteport c2) then c2\<lparr>remoteport := None\<rparr> else c2);
          c4 = (if \<not> truthy_str (remotehost c3) then c3\<lparr>remotehost := None\<rparr> else c3)
      in c4)"

definition beforeSave :: "'a WS2PConfDTO_scheme \<Rightarrow> 'a WS2PConfDTO_scheme" where
  "beforeSave conf =
     (case ws2p conf of None \<Rightarrow> conf | Some c \<Rightarrow> conf\<lparr>ws2p := Some (beforeSave_ws2p c)\<rparr>)"

section \<open>The wrong-endpoint filter\<close>

text \<open>
  \<^verbatim>\<open>CommonConstants.WS2P_REGEXP\<close> is declared outside the files at hand, so the result of
  \<^verbatim>\<open>ep.match(CommonConstants.WS2P_REGEXP)\<close> is a parameter: \<open>None\<close> for \<^verbatim>\<open>null\<close> (no
  match), otherwise the match array, whose element 0 is the matched text and whose
  elements from 1 on are the capture groups.
\<close>

type_synonym regexp = "string \<Rightarrow> string list option"

text \<open>Reading an array element: \<^verbatim>\<open>undefined\<close> beyond the end.\<close>

definition js_index :: "'a list \<Rightarrow> nat \<Rightarrow> 'a option" where
  "js_index xs i = (if i < length xs then Some (xs ! i) else None)"

text \<open>The arrow function handed to \<^verbatim>\<open>endpoints.filter\<close> (lines 155 to 158).\<close>

definition isWrongEndpoint :: "regexp \<Rightarrow> 'a WS2PConfDTO_scheme \<Rightarrow> string \<Rightarrow> bool" where
  "isWrongEndpoint re ws2pConf ep =
     (case ws2p ws2pConf of
        None \<Rightarrow> False
      | Some c \<Rightarrow> (case re ep of None \<Rightarrow> False | Some m \<Rightarrow> js_index m 1 = uuid c))"

definition getWrongEndpoints :: "regexp \<Rightarrow> string list \<Rightarrow> 'a WS2PConfDTO_scheme \<Rightarrow> string list" where
  "getWrongEndpoints re endpoints ws2pConf = filter (isWrongEndpoint re ws2pConf) endpoints"

text \<open>
  Modelled from the spec: \<^verbatim>\<open>CommonConstants.WS2P_REGEXP\<close>, the pattern of an advertised
  endpoint, is missing from the sources. The spec gives the format
  \<^verbatim>\<open>"WS2P <id> <host> <port>"\<close>: the tag literal, an 8-character instance id, a host
  without embedded spaces and a decimal port. This matcher is used for concrete inputs
  only; the general statements hold for every matcher.
\<close>

fun split_on :: "char \<Rightarrow> string \<Rightarrow> string list" where
  "split_on sep [] = [[]]"
| "split_on sep (x # xs) =
     (if x = sep then [] # split_on sep xs
      else (case split_on sep xs of [] \<Rightarrow> [[x]] | w # ws \<Rightarrow> (x # w) # ws))"

definition is_digit :: "char \<Rightarrow> bool" where
  "is_digit ch = (ch \<in> set ''0123456789'')"

definition WS2P_REGEXP :: regexp where
  "WS2P_REGEXP ep =
     (case split_on CHR '' '' ep of
        [t, i, h, p] \<Rightarrow>
          (if t = ''WS2P'' \<and> length i = 8 \<and> h \<noteq> [] \<and> p \<noteq> [] \<and> list_all is_digit p
           then Some [ep, i, h, p] else None)
      | _ \<Rightarrow> None)"

section \<open>Collaborators of the service\<close>

text \<open>A value thrown by a collaborator (a rejected promise).\<close>

datatype js_error = Error string

subsection \<open>The connection cluster\<close>

text \<open>
  Modelled from the spec: the class \<^verbatim>\<open>WS2PCluster\<close> (\<^verbatim>\<open>./lib/WS2PCluster\<close>) is missing
  from the sources. Section 4.2 of the spec gives its contract: \<^verbatim>\<open>listen\<close> fails with a
  bind error or begins accepting; \<^verbatim>\<open>startCrawling\<close> begins the discovery cycle and is
  idempotent; \<^verbatim>\<open>stopCrawling\<close> cancels the cycle; \<^verbatim>\<open>close\<close> stops the inbound
  listener and closes every tracked connection, and is idempotent; \<^verbatim>\<open>plugOn\<close> returns
  the cluster instance. Whether \<^verbatim>\<open>listen\<close> fails is decided by the operating system, so
  its outcome is an argument.
\<close>

record WS2PCluster =
  listener :: "(string \<times> jsnum) option"
  crawling :: bool
  connections :: "string list"

definition plugOn :: WS2PCluster where
  "plugOn = \<lparr> listener = None, crawling = False, connections = [] \<rparr>"

definition listen :: "js_error option \<Rightarrow> string \<Rightarrow> jsnum \<Rightarrow> WS2PCluster \<Rightarrow> js_error + WS2PCluster" where
  "listen outcome h p cl =
     (case outcome of Some err \<Rightarrow> Inl err | None \<Rightarrow> Inr (cl\<lparr>listener := Some (h, p)\<rparr>))"

definition startCrawling :: "WS2PCluster \<Rightarrow> WS2PCluster" where
  "startCrawling cl = cl\<lparr>crawling := True\<rparr>"

definition stopCrawling :: "WS2PCluster \<Rightarrow> WS2PCluster" where
  "stopCrawling cl = cl\<lparr>crawling := False\<rparr>"

definition close :: "WS2PCluster \<Rightarrow> WS2PCluster" where
  "close cl = cl\<lparr>listener := None, connections := []\<rparr>"

subsection \<open>The NAT traversal helper\<close>

text \<open>
  Modelled from the spec: the class \<^verbatim>\<open>WS2PUpnp\<close> (\<^verbatim>\<open>./lib/ws2p-upnp\<close>) is missing from
  the sources. Section 4.3 of the spec gives its contract. \<^verbatim>\<open>startRegular\<close> attempts the
  mapping once and schedules a renewal thereafter; it reports \<^verbatim>\<open>{host, port, available}\<close>,
  with \<^verbatim>\<open>available = false\<close> and empty host and port when no mapping could be had.
  \<^verbatim>\<open>stopRegular\<close> cancels the renewal schedule and releases the mapping if one is held;
  it is idempotent and safe on a helper that never started. \<^verbatim>\<open>getCurrentConfig\<close> returns
  the last known good mapping or \<^verbatim>\<open>null\<close>. What the gateway answers is an argument; since
  the service wraps the call in \<^verbatim>\<open>try\<close>, a rejection is one of the answers. The mapping
  has the properties the service reads: \<^verbatim>\<open>host\<close> and \<^verbatim>\<open>port\<close> from the report of
  \<^verbatim>\<open>startRegular\<close>, \<^verbatim>\<open>remotehost\<close> and \<^verbatim>\<open>port\<close> from \<^verbatim>\<open>getCurrentConfig\<close>.
\<close>

record UPnPBinding =
  nat_remotehost :: string
  nat_host :: string
  nat_port :: jsnum

record WS2PUpnp =
  currentConfig :: "UPnPBinding option"
  renewal :: bool

datatype upnp_outcome = Mapped UPnPBinding | Unavailable | Rejected js_error

definition new_WS2PUpnp :: WS2PUpnp where
  "new_WS2PUpnp = \<lparr> currentConfig = None, renewal = False \<rparr>"

definition startRegular :: "upnp_outcome \<Rightarrow> WS2PUpnp \<Rightarrow> (js_error + string \<times> jsnum \<times> bool) \<times> WS2PUpnp" where
  "startRegular outcome h =
     (case outcome of
        Mapped b \<Rightarrow> (Inr (nat_host b, nat_port b, True), h\<lparr>currentConfig := Some b, renewal := True\<rparr>)
      | Unavailable \<Rightarrow> (Inr ([], Num 0, False), h\<lparr>renewal := True\<rparr>)
      | Rejected err \<Rightarrow> (Inl err, h\<lparr>renewal := True\<rparr>))"

definition stopRegular :: "WS2PUpnp \<Rightarrow> WS2PUpnp" where
  "stopRegular h = h\<lparr>currentConfig := None, renewal := False\<rparr>"

definition getCurrentConfig :: "WS2PUpnp \<Rightarrow> UPnPBinding option" where
  "getCurrentConfig h = currentConfig h"

section \<open>The service: class \<^verbatim>\<open>WS2PAPI\<close>\<close>

text \<open>
  The fields of the object. \<^verbatim>\<open>this.conf\<close> and \<^verbatim>\<open>this.server.conf\<close> are kept apart as the
  source reads them; the service writes only \<^verbatim>\<open>this.conf.ws2p.upnp\<close> and reads only
  \<^verbatim>\<open>uuid\<close>, \<^verbatim>\<open>remotehost\<close> and \<^verbatim>\<open>remoteport\<close> of \<^verbatim>\<open>this.server.conf.ws2p\<close>, so nothing
  here depends on whether the two are one object. \<open>released\<close> is a ghost field: the
  helpers that \<^verbatim>\<open>this.upnpAPI\<close> pointed to before it was reassigned. The service cannot
  reach them any more, but a renewal timer they left running would still fire.
\<close>

record WS2PAPI =
  conf :: WS2PConfDTO
  server_conf :: WS2PConfDTO
  cluster :: WS2PCluster
  upnpAPI :: "WS2PUpnp option"
  released :: "WS2PUpnp list"

text \<open>The calls the service makes on its collaborators, in the order it makes them.\<close>

datatype event =
    Listen string jsnum
  | StartCrawling
  | StopCrawling
  | Close
  | NewUpnp
  | StartRegular
  | StopRegular
  | GenerateSelfPeer
  | LoggerWarn js_error

text \<open>What the world outside answers during one call of \<^verbatim>\<open>startService\<close>.\<close>

record env =
  listen_outcome :: "string \<Rightarrow> jsnum \<Rightarrow> js_error option"
  upnp_new_outcome :: "js_error option"
  startRegular_outcome :: upnp_outcome
  generateSelfPeer_outcome :: "js_error option"

text \<open>The constructor (lines 167 to 173); \<^verbatim>\<open>upnpAPI\<close> starts undefined.\<close>

definition new_WS2PAPI :: "WS2PConfDTO \<Rightarrow> WS2PConfDTO \<Rightarrow> WS2PAPI" where
  "new_WS2PAPI sconf c =
     \<lparr> conf = c, server_conf = sconf, cluster = plugOn, upnpAPI = None, released = [] \<rparr>"

subsection \<open>\<^verbatim>\<open>startService\<close>\<close>

text \<open>The condition of line 190 to 193.\<close>

definition manual :: "ws2p_conf \<Rightarrow> bool" where
  "manual c = (\<not> truthy_bool (upnp c) \<and> truthy_str (host c) \<and> truthy_num (port c))"

text \<open>Line 194. The call is outside any \<^verbatim>\<open>try\<close>: a rejection leaves the function.\<close>

definition manual_access :: "env \<Rightarrow> ws2p_conf \<Rightarrow> WS2PAPI \<Rightarrow> js_error option \<times> event list \<times> WS2PAPI" where
  "manual_access e c s =
     (let h = the (host c); p = the (port c)
      in case listen (listen_outcome e h p) h p (cluster s) of
           Inl err \<Rightarrow> (Some err, [Listen h p], s)
         | Inr cl \<Rightarrow> (None, [Listen h p], s\<lparr>cluster := cl\<rparr>))"

text \<open>Lines 201 to 203.\<close>

definition stop_existing :: "WS2PAPI \<Rightarrow> event list \<times> WS2PAPI" where
  "stop_existing s =
     (case upnpAPI s of
        None \<Rightarrow> ([], s)
      | Some h \<Rightarrow> ([StopRegular], s\<lparr>upnpAPI := Some (stopRegular h)\<rparr>))"

text \<open>Line 209.\<close>

definition set_upnp_true :: "WS2PConfDTO \<Rightarrow> WS2PConfDTO" where
  "set_upnp_true cf = cf\<lparr>ws2p := map_option (\<lambda>c. c\<lparr>upnp := Some True\<rparr>) (ws2p cf)\<rparr>"

text \<open>
  The body of the \<^verbatim>\<open>try\<close> block (lines 205 to 212); the first component is the value
  thrown, if any. Assigning the new helper to \<^verbatim>\<open>this.upnpAPI\<close> releases the previous one.
\<close>

definition upnp_try :: "env \<Rightarrow> WS2PAPI \<Rightarrow> js_error option \<times> event list \<times> WS2PAPI" where
  "upnp_try e s =
     (case upnp_new_outcome e of
        Some err \<Rightarrow> (Some err, [NewUpnp], s)
      | None \<Rightarrow>
          (let s1 = s\<lparr>upnpAPI := Some new_WS2PUpnp,
                      released := (case upnpAPI s of None \<Rightarrow> released s | Some old \<Rightarrow> old # released s)\<rparr>;
               (r, h) = startRegular (startRegular_outcome e) new_WS2PUpnp;
               s2 = s1\<lparr>upnpAPI := Some h\<rparr>
           in case r of
                Inl err \<Rightarrow> (Some err, [NewUpnp, StartRegular], s2)
              | Inr (mh, mp, available) \<Rightarrow>
                  if available then
                    (let s3 = s2\<lparr>conf := set_upnp_true (conf s2)\<rparr>
                     in case listen (listen_outcome e mh mp) mh mp (cluster s3) of
                          Inl err \<Rightarrow> (Some err, [NewUpnp, StartRegular, Listen mh mp], s3)
                        | Inr cl \<Rightarrow>
                            (generateSelfPeer_outcome e,
                             [NewUpnp, StartRegular, Listen mh mp, GenerateSelfPeer],
                             s3\<lparr>cluster := cl\<rparr>))
                  else (None, [NewUpnp, StartRegular], s2)))"

text \<open>Lines 200 to 216: stop the helper at hand, try, and log what was thrown.\<close>

definition upnp_access :: "env \<Rightarrow> WS2PAPI \<Rightarrow> js_error option \<times> event list \<times> WS2PAPI" where
  "upnp_access e s =
     (let (ev0, s0) = stop_existing s;
          (r, ev1, s1) = upnp_try e s0
      in case r of
           Some err \<Rightarrow> (None, ev0 @ ev1 @ [LoggerWarn err], s1)
         | None \<Rightarrow> (None, ev0 @ ev1, s1))"

text \<open>Lines 185 to 217.\<close>

definition public_access :: "env \<Rightarrow> WS2PAPI \<Rightarrow> js_error option \<times> event list \<times> WS2PAPI" where
  "public_access e s =
     (case ws2p (conf s) of
        None \<Rightarrow> (None, [], s)
      | Some c \<Rightarrow>
          if truthy_bool (publicAccess c) then
            (if manual c then manual_access e c s
             else if upnp c \<noteq> Some False then upnp_access e s
             else (None, [], s))
          else (None, [], s))"

text \<open>Lines 223 to 225.\<close>

definition private_access :: "WS2PAPI \<Rightarrow> event list \<times> WS2PAPI" where
  "private_access s =
     (if (case ws2p (conf s) of None \<Rightarrow> True | Some c \<Rightarrow> truthy_bool (privateAccess c))
      then ([StartCrawling], s\<lparr>cluster := startCrawling (cluster s)\<rparr>)
      else ([], s))"

text \<open>
  The whole function: the value it rejects with (\<open>None\<close> when it resolves), the calls it
  made, and the object afterwards.
\<close>

definition startService :: "env \<Rightarrow> WS2PAPI \<Rightarrow> js_error option \<times> event list \<times> WS2PAPI" where
  "startService e s =
     (let (r, ev1, s1) = public_access e s
      in case r of
           Some err \<Rightarrow> (Some err, ev1, s1)
         | None \<Rightarrow> (let (ev2, s2) = private_access s1 in (None, ev1 @ ev2, s2)))"

subsection \<open>\<^verbatim>\<open>stopService\<close>\<close>

text \<open>
  Lines 228 to 236. \<^verbatim>\<open>this.cluster\<close> is assigned in the constructor and is an object, so
  the first test holds. None of the three calls has a failing outcome in the contracts
  above, so the function resolves.
\<close>

definition stopService :: "WS2PAPI \<Rightarrow> js_error option \<times> event list \<times> WS2PAPI" where
  "stopService s =
     (let s1 = s\<lparr>cluster := close (stopCrawling (cluster s))\<rparr>
      in case upnpAPI s1 of
           None \<Rightarrow> (None, [StopCrawling, Close], s1)
         | Some h \<Rightarrow> (None, [StopCrawling, Close, StopRegular], s1\<lparr>upnpAPI := Some (stopRegular h)\<rparr>))"

subsection \<open>\<^verbatim>\<open>getEndpoint\<close>\<close>

definition getEndpoint :: "WS2PAPI \<Rightarrow> string" where
  "getEndpoint s =
     (if upnpAPI s \<noteq> None \<and> ws2p (server_conf s) \<noteq> None then
        (case getCurrentConfig (the (upnpAPI s)) of
           None \<Rightarrow> []
         | Some config \<Rightarrow>
             join '' '' [JStr ''WS2P'', str_or_undefined (uuid (the (ws2p (server_conf s)))),
                         JStr (nat_remotehost config), JNum (nat_port config)])
      else if ws2p (server_conf s) \<noteq> None
              \<and> truthy_str (uuid (the (ws2p (server_conf s))))
              \<and> truthy_str (remotehost (the (ws2p (server_conf s))))
              \<and> truthy_num (remoteport (the (ws2p (server_conf s)))) then
        join '' '' [JStr ''WS2P'', str_or_undefined (uuid (the (ws2p (server_conf s)))),
                    str_or_undefined (remotehost (the (ws2p (server_conf s)))),
                    num_or_undefined (remoteport (the (ws2p (server_conf s))))]
      else [])"

section \<open>Observing a call\<close>

text \<open>The three components of what \<^verbatim>\<open>startService\<close> and \<^verbatim>\<open>stopService\<close> return.\<close>

abbreviation rejected :: "js_error option \<times> event list \<times> WS2PAPI \<Rightarrow> js_error option" where
  "rejected R \<equiv> fst R"
abbreviation calls :: "js_error option \<times> event list \<times> WS2PAPI \<Rightarrow> event list" where
  "calls R \<equiv> fst (snd R)"
abbreviation after :: "js_error option \<times> event list \<times> WS2PAPI \<Rightarrow> WS2PAPI" where
  "after R \<equiv> snd (snd R)"

text \<open>
  The renewal schedules that are active: those of the released helpers and that of
  the helper at hand.
\<close>

definition active_renewals :: "WS2PAPI \<Rightarrow> nat" where
  "active_renewals s =
     length (filter renewal (released s))
     + (case upnpAPI s of None \<Rightarrow> 0 | Some h \<Rightarrow> if renewal h then 1 else 0)"

text \<open>A history of calls on the service, from its construction on.\<close>

datatype call = Start env | Stop

fun run :: "call list \<Rightarrow> WS2PAPI \<Rightarrow> WS2PAPI" where
  "run [] s = s"
| "run (Start e # cs) s = run cs (after (startService e s))"
| "run (Stop # cs) s = run cs (after (stopService s))"

text \<open>No released helper has a renewal schedule left.\<close>

definition released_idle :: "WS2PAPI \<Rightarrow> bool" where
  "released_idle s = list_all (\<lambda>h. \<not> renewal h) (released s)"

section \<open>Concrete configurations and environments\<close>

definition conf_base :: ws2p_conf where
  "conf_base =
     \<lparr> uuid = Some ''abcdef01'', privateAccess = Some True, publicAccess = Some True,
       upnp = Some True, host = None, port = None, remotehost = None, remoteport = None,
       maxPrivate = None, maxPublic = None, preferedNodes = None, privilegedNodes = None \<rparr>"

definition cf_upnp :: WS2PConfDTO where
  "cf_upnp = \<lparr> ws2p = Some conf_base \<rparr>"

definition conf_manual :: ws2p_conf where
  "conf_manual = conf_base\<lparr>upnp := Some False, host := Some ''0.0.0.0'', port := Some (Num 20901)\<rparr>"

definition cf_manual :: WS2PConfDTO where
  "cf_manual = \<lparr> ws2p = Some conf_manual \<rparr>"

definition conf_nohost :: ws2p_conf where
  "conf_nohost = conf_base\<lparr>upnp := Some False\<rparr>"

definition cf_nohost :: WS2PConfDTO where
  "cf_nohost = \<lparr> ws2p = Some conf_nohost \<rparr>"

definition conf_remote :: ws2p_conf where
  "conf_remote = conf_base\<lparr>remotehost := Some ''g1.duniter.org'', remoteport := Some (Num 20901)\<rparr>"

definition cf_remote :: WS2PConfDTO where
  "cf_remote = \<lparr> ws2p = Some conf_remote \<rparr>"

definition conf_blank :: ws2p_conf where
  "conf_blank = conf_base\<lparr>host := Some [], port := Some (Num 0),
                           remotehost := Some ''g1.duniter.org'', remoteport := Some (Num 20901)\<rparr>"

definition cf_blank :: WS2PConfDTO where
  "cf_blank = \<lparr> ws2p = Some conf_blank \<rparr>"

definition cf_absent :: WS2PConfDTO where
  "cf_absent = \<lparr> ws2p = None \<rparr>"

definition binding0 :: UPnPBinding where
  "binding0 = \<lparr> nat_remotehost = ''203.0.113.7'', nat_host = ''192.168.1.10'', nat_port = Num 20901 \<rparr>"

definition env_unavailable :: env where
  "env_unavailable =
     \<lparr> listen_outcome = (\<lambda>h p. None), upnp_new_outcome = None,
       startRegular_outcome = Unavailable, generateSelfPeer_outcome = None \<rparr>"

definition env_mapped :: env where
  "env_mapped =
     \<lparr> listen_outcome = (\<lambda>h p. None), upnp_new_outcome = None,
       startRegular_outcome = Mapped binding0, generateSelfPeer_outcome = None \<rparr>"

definition env_bind_error :: env where
  "env_bind_error =
     \<lparr> listen_outcome = (\<lambda>h p. Some (Error ''EADDRINUSE'')), upnp_new_outcome = None,
       startRegular_outcome = Mapped binding0, generateSelfPeer_outcome = None \<rparr>"

definition no_options :: program where
  "no_options =
     \<lparr> ws2pHost = None, ws2pPort = None, ws2pRemotePort = None, ws2pRemoteHost = None,
       ws2pUpnp = None, ws2pNoupnp = None, ws2pMaxPrivate = None, ws2pMaxPublic = None,
       ws2pPrivate = None, ws2pPublic = None, ws2pNoPrivate = None, ws2pNoPublic = None,
       ws2pPreferedAdd = None, ws2pPreferedRm = None, ws2pPrivilegedAdd = None,
       ws2pPrivilegedRm = None \<rparr>"

definition v4_sample :: string where
  "v4_sample = ''110ec58a-a0f2-4ac4-8393-c866d813b8d1''"

definition own_ep :: string where
  "own_ep = ''WS2P abcdef01 g1.duniter.org 20901''"

definition foreign_ep :: string where
  "foreign_ep = ''WS2P 0f1e2d3c g1.monnaielibreoccitanie.org 443''"

section \<open>Basic facts\<close>

lemmas startService_defs =
  startService_def public_access_def private_access_def manual_def manual_access_def
  upnp_access_def upnp_try_def stop_existing_def startRegular_def stopRegular_def listen_def
  set_upnp_true_def startCrawling_def new_WS2PUpnp_def new_WS2PAPI_def plugOn_def Let_def

lemma truthy_str_iff: "truthy_str x \<longleftrightarrow> (\<exists>s. x = Some s \<and> s \<noteq> [])"
  by (cases x) simp_all

lemma truthy_num_iff: "truthy_num x \<longleftrightarrow> (\<exists>n. x = Some (Num n) \<and> n \<noteq> 0)"
  by (cases x rule: truthy_num.cases) simp_all

lemma truthy_bool_iff: "truthy_bool x \<longleftrightarrow> x = Some True"
  by (cases x) simp_all

section \<open>Private access and a failing public access\<close>

text \<open>
  Claim C1, as stated, at a concrete input: a node with private access and a manually
  configured listen address \<^verbatim>\<open>0.0.0.0:20901\<close> on which \<^verbatim>\<open>cluster.listen\<close> raises.
  \<^verbatim>\<open>startService\<close> rejects with the bind error after the single call to \<^verbatim>\<open>listen\<close>;
  \<^verbatim>\<open>startCrawling\<close> is not called and the cluster is not crawling.
\<close>

theorem startService_bind_error_counterexample:
  "truthy_bool (privateAccess conf_manual)
   \<and> rejected (startService env_bind_error (new_WS2PAPI cf_manual cf_manual)) = Some (Error ''EADDRINUSE'')
   \<and> calls (startService env_bind_error (new_WS2PAPI cf_manual cf_manual)) = [Listen ''0.0.0.0'' (Num 20901)]
   \<and> \<not> crawling (cluster (after (startService env_bind_error (new_WS2PAPI cf_manual cf_manual))))"
  by (simp add: startService_defs cf_manual_def conf_manual_def conf_base_def env_bind_error_def)

text \<open>
  Claim C1, amended. With \<^verbatim>\<open>privateAccess\<close> true: whenever the manual listen branch is
  not taken (public access off, or the UPnP branch, whatever fails in it: the
  constructor, \<^verbatim>\<open>startRegular\<close>, \<^verbatim>\<open>listen\<close> on the mapped address, \<^verbatim>\<open>generateSelfPeer\<close>,
  or a mapping that is unavailable), \<^verbatim>\<open>startService\<close> resolves and has called
  \<^verbatim>\<open>startCrawling\<close>. On the manual branch, \<^verbatim>\<open>startCrawling\<close> is called after a successful
  \<^verbatim>\<open>listen\<close>; when \<^verbatim>\<open>listen\<close> raises, \<^verbatim>\<open>startService\<close> rejects with that error and
  \<^verbatim>\<open>listen\<close> is the only call made.
\<close>

theorem startService_private_access:
  assumes "ws2p (conf s) = Some c" and "truthy_bool (privateAccess c)"
  shows "(\<not> (truthy_bool (publicAccess c) \<and> manual c) \<longrightarrow>
            rejected (startService e s) = None
            \<and> StartCrawling \<in> set (calls (startService e s))
            \<and> crawling (cluster (after (startService e s))))
       \<and> (truthy_bool (publicAccess c) \<and> manual c \<longrightarrow>
            (case listen_outcome e (the (host c)) (the (port c)) of
               None \<Rightarrow> rejected (startService e s) = None
                       \<and> calls (startService e s) = [Listen (the (host c)) (the (port c)), StartCrawling]
             | Some err \<Rightarrow> rejected (startService e s) = Some err
                       \<and> calls (startService e s) = [Listen (the (host c)) (the (port c))]))"
  using assms
  by (auto simp: startService_def public_access_def private_access_def manual_access_def
      upnp_access_def upnp_try_def stop_existing_def startRegular_def listen_def set_upnp_true_def
      startCrawling_def Let_def
      split: option.splits sum.splits prod.splits upnp_outcome.splits if_splits)

theorem startService_private_access_witness:
  "rejected (startService env_bind_error (new_WS2PAPI cf_upnp cf_upnp)) = None
   \<and> StartCrawling \<in> set (calls (startService env_bind_error (new_WS2PAPI cf_upnp cf_upnp)))
   \<and> rejected (startService env_bind_error (new_WS2PAPI cf_manual cf_manual)) = Some (Error ''EADDRINUSE'')
   \<and> calls (startService env_mapped (new_WS2PAPI cf_manual cf_manual)) = [Listen ''0.0.0.0'' (Num 20901), StartCrawling]"
proof -
  have u: "ws2p (conf (new_WS2PAPI cf_upnp cf_upnp)) = Some conf_base"
    and m: "ws2p (conf (new_WS2PAPI cf_manual cf_manual)) = Some conf_manual"
    by (simp_all add: new_WS2PAPI_def cf_upnp_def cf_manual_def)
  have pu: "truthy_bool (privateAccess conf_base)" and pm: "truthy_bool (privateAccess conf_manual)"
    by (simp_all add: conf_base_def conf_manual_def)
  have nm: "\<not> (truthy_bool (publicAccess conf_base) \<and> manual conf_base)"
    and mm: "truthy_bool (publicAccess conf_manual) \<and> manual conf_manual"
    by (simp_all add: conf_base_def conf_manual_def manual_def)
  have hp: "the (host conf_manual) = ''0.0.0.0''" "the (port conf_manual) = Num 20901"
    by (simp_all add: conf_manual_def)
  show ?thesis
    using startService_private_access [OF u pu, of env_bind_error]
      startService_private_access [OF m pm, of env_bind_error]
      startService_private_access [OF m pm, of env_mapped] nm mm hp
    by (simp add: env_bind_error_def env_mapped_def)
qed

section \<open>The advertised endpoint\<close>

text \<open>
  Claim C2, as stated, at a concrete input: the configuration has \<^verbatim>\<open>uuid\<close>,
  \<^verbatim>\<open>remotehost\<close> and \<^verbatim>\<open>remoteport\<close> set, and \<^verbatim>\<open>startService\<close> has run the UPnP branch with
  a gateway that offers no mapping. The helper exists and has no current mapping, so
  \<^verbatim>\<open>getEndpoint\<close> returns the empty string although a remote host and port are
  configured.
\<close>

theorem getEndpoint_helper_counterexample:
  "truthy_str (uuid conf_remote) \<and> truthy_str (remotehost conf_remote)
   \<and> truthy_num (remoteport conf_remote)
   \<and> getEndpoint (after (startService env_unavailable (new_WS2PAPI cf_remote cf_remote))) = []"
  by (simp add: startService_defs getEndpoint_def getCurrentConfig_def cf_remote_def
      conf_remote_def conf_base_def env_unavailable_def)

text \<open>
  Claim C2, amended. \<^verbatim>\<open>getEndpoint\<close> returns the empty string exactly in these cases:
  \<^verbatim>\<open>server.conf.ws2p\<close> is absent; or a NAT helper exists and holds no current mapping
  (the configured remote host and port are not consulted then); or no NAT helper
  exists and one of \<^verbatim>\<open>uuid\<close>, \<^verbatim>\<open>remotehost\<close>, \<^verbatim>\<open>remoteport\<close> is empty or unset. In
  particular, with no NAT helper and all three set, the result is not empty.
\<close>

theorem getEndpoint_empty_iff:
  "(ws2p (server_conf s) = None \<longrightarrow> getEndpoint s = []) \<and>
   (\<forall>h c. upnpAPI s = Some h \<and> ws2p (server_conf s) = Some c \<longrightarrow>
      (getEndpoint s = [] \<longleftrightarrow> getCurrentConfig h = None)) \<and>
   (\<forall>c. upnpAPI s = None \<and> ws2p (server_conf s) = Some c \<longrightarrow>
      (getEndpoint s = [] \<longleftrightarrow>
         \<not> (truthy_str (uuid c) \<and> truthy_str (remotehost c) \<and> truthy_num (remoteport c))))"
  by (auto simp: getEndpoint_def split: option.splits)

theorem getEndpoint_empty_iff_witness:
  "getEndpoint (new_WS2PAPI cf_remote cf_remote) \<noteq> []
   \<and> getEndpoint (new_WS2PAPI cf_upnp cf_upnp) = []
   \<and> getEndpoint (after (startService env_unavailable (new_WS2PAPI cf_remote cf_remote))) = []"
proof -
  have a: "upnpAPI (new_WS2PAPI cf_remote cf_remote) = None
           \<and> ws2p (server_conf (new_WS2PAPI cf_remote cf_remote)) = Some conf_remote"
    and b: "upnpAPI (new_WS2PAPI cf_upnp cf_upnp) = None
           \<and> ws2p (server_conf (new_WS2PAPI cf_upnp cf_upnp)) = Some conf_base"
    by (simp_all add: new_WS2PAPI_def cf_remote_def cf_upnp_def)
  have c: "upnpAPI (after (startService env_unavailable (new_WS2PAPI cf_remote cf_remote)))
             = Some \<lparr> currentConfig = None, renewal = True \<rparr>
           \<and> ws2p (server_conf (after (startService env_unavailable (new_WS2PAPI cf_remote cf_remote))))
             = Some conf_remote"
    by (simp add: startService_defs cf_remote_def conf_remote_def conf_base_def env_unavailable_def)
  have t: "truthy_str (uuid conf_remote) \<and> truthy_str (remotehost conf_remote)
             \<and> truthy_num (remoteport conf_remote)"
    and f: "\<not> truthy_str (remotehost conf_base)"
    by (simp_all add: conf_remote_def conf_base_def)
  have g: "getCurrentConfig \<lparr> currentConfig = None, renewal = True \<rparr> = None"
    by (simp add: getCurrentConfig_def)
  show ?thesis
    using getEndpoint_empty_iff [of "new_WS2PAPI cf_remote cf_remote"]
      getEndpoint_empty_iff [of "new_WS2PAPI cf_upnp cf_upnp"]
      getEndpoint_empty_iff [of "after (startService env_unavailable (new_WS2PAPI cf_remote cf_remote))"]
      a b c t f g
    by blast
qed

text \<open>
  Claim C6. A non-empty result of \<^verbatim>\<open>getEndpoint\<close> is the tag \<^verbatim>\<open>WS2P\<close>, the instance id of
  \<^verbatim>\<open>server.conf.ws2p\<close>, the host and the port, in that order, separated by one space
  each. Host and port are those of the helper's current mapping when a helper exists,
  and the configured \<^verbatim>\<open>remotehost\<close> and \<^verbatim>\<open>remoteport\<close> otherwise. (On the helper's
  branch an id that is unset is joined as the empty string.)
\<close>

theorem getEndpoint_format:
  assumes "getEndpoint s \<noteq> []"
  shows "\<exists>c. ws2p (server_conf s) = Some c \<and>
     ((\<exists>h b. upnpAPI s = Some h \<and> getCurrentConfig h = Some b \<and>
          getEndpoint s = ''WS2P'' @ '' '' @ (case uuid c of None \<Rightarrow> [] | Some u \<Rightarrow> u) @ '' ''
                            @ nat_remotehost b @ '' '' @ string_of_jsnum (nat_port b))
      \<or> (\<exists>u h p. upnpAPI s = None \<and> uuid c = Some u \<and> u \<noteq> [] \<and> remotehost c = Some h \<and> h \<noteq> []
            \<and> remoteport c = Some p \<and>
          getEndpoint s = ''WS2P'' @ '' '' @ u @ '' '' @ h @ '' '' @ string_of_jsnum p))"
  using assms
  by (auto simp: getEndpoint_def str_or_undefined_def num_or_undefined_def truthy_str_iff
      truthy_num_iff split: if_splits option.splits)

theorem getEndpoint_format_witness:
  "getEndpoint (new_WS2PAPI cf_remote cf_remote) = ''WS2P abcdef01 g1.duniter.org 20901''"
proof -
  have ne: "getEndpoint (new_WS2PAPI cf_remote cf_remote) \<noteq> []"
    by (simp add: getEndpoint_def new_WS2PAPI_def cf_remote_def conf_remote_def conf_base_def)
  have n: "string_of_jsnum (Num 20901) = ''20901''"
    by (simp add: string_of_nat.simps digit_char_def)
  have a: "upnpAPI (new_WS2PAPI cf_remote cf_remote) = None"
    and b: "ws2p (server_conf (new_WS2PAPI cf_remote cf_remote)) = Some conf_remote"
    by (simp_all add: new_WS2PAPI_def cf_remote_def)
  have c: "uuid conf_remote = Some ''abcdef01''" "remotehost conf_remote = Some ''g1.duniter.org''"
    "remoteport conf_remote = Some (Num 20901)"
    by (simp_all add: conf_remote_def conf_base_def)
  show ?thesis
    using getEndpoint_format [OF ne] a b c n by auto
qed

section \<open>A contradictory configuration\<close>

text \<open>
  Claim C3, as stated, at a concrete input: public access requested, UPnP disabled, no
  host and no port. \<^verbatim>\<open>startService\<close> resolves, and its only call is \<^verbatim>\<open>startCrawling\<close>:
  nothing is logged and nothing is raised.
\<close>

theorem startService_silent_counterexample:
  "truthy_bool (publicAccess conf_nohost) \<and> upnp conf_nohost = Some False
   \<and> host conf_nohost = None \<and> port conf_nohost = None
   \<and> rejected (startService env_mapped (new_WS2PAPI cf_nohost cf_nohost)) = None
   \<and> calls (startService env_mapped (new_WS2PAPI cf_nohost cf_nohost)) = [StartCrawling]"
  by (simp add: startService_defs cf_nohost_def conf_nohost_def conf_base_def env_mapped_def)

text \<open>
  Claim C3, amended. For a configuration with \<^verbatim>\<open>publicAccess\<close> true, \<^verbatim>\<open>upnp\<close> false and
  no host or no port, \<^verbatim>\<open>startService\<close> starts no listener, does not run the NAT helper,
  logs nothing and raises nothing; it goes on to the private access step, as it does
  when public access is not requested.
\<close>

theorem startService_unsurfaced:
  assumes "ws2p (conf s) = Some c" and "truthy_bool (publicAccess c)" and "upnp c = Some False"
    and "\<not> truthy_str (host c) \<or> \<not> truthy_num (port c)"
  shows "startService e s =
           (None,
            if truthy_bool (privateAccess c) then [StartCrawling] else [],
            if truthy_bool (privateAccess c) then s\<lparr>cluster := startCrawling (cluster s)\<rparr> else s)"
  using assms
  by (auto simp: startService_def public_access_def private_access_def manual_def)

theorem startService_unsurfaced_witness:
  "startService env_mapped (new_WS2PAPI cf_nohost cf_nohost)
     = (None, [StartCrawling],
        (new_WS2PAPI cf_nohost cf_nohost)\<lparr>cluster := startCrawling (cluster (new_WS2PAPI cf_nohost cf_nohost))\<rparr>)"
proof -
  have a: "ws2p (conf (new_WS2PAPI cf_nohost cf_nohost)) = Some conf_nohost"
    by (simp add: new_WS2PAPI_def cf_nohost_def)
  have b: "truthy_bool (publicAccess conf_nohost)" and c: "upnp conf_nohost = Some False"
    and d: "\<not> truthy_str (host conf_nohost) \<or> \<not> truthy_num (port conf_nohost)"
    and p: "truthy_bool (privateAccess conf_nohost)"
    by (simp_all add: conf_nohost_def conf_base_def)
  show ?thesis
    using startService_unsurfaced [OF a b c d, of env_mapped] p by simp
qed

section \<open>Endpoints of this node\<close>

text \<open>
  Claim C4, as stated, at a concrete input: on a list with one endpoint of this node
  and one foreign endpoint, \<^verbatim>\<open>getWrongEndpoints\<close> returns the endpoint of this node, not
  the list without it; on a list with no endpoint of this node it returns the empty
  list, not the list itself.
\<close>

theorem getWrongEndpoints_counterexample:
  "getWrongEndpoints WS2P_REGEXP [own_ep, foreign_ep] cf_upnp = [own_ep]
   \<and> getWrongEndpoints WS2P_REGEXP [own_ep, foreign_ep] cf_upnp \<noteq> [foreign_ep]
   \<and> getWrongEndpoints WS2P_REGEXP [foreign_ep] cf_upnp = []
   \<and> getWrongEndpoints WS2P_REGEXP [foreign_ep] cf_upnp \<noteq> [foreign_ep]"
  by (simp add: getWrongEndpoints_def isWrongEndpoint_def WS2P_REGEXP_def js_index_def
      is_digit_def own_ep_def foreign_ep_def cf_upnp_def conf_base_def)

text \<open>
  Claim C4, amended. For every matcher, every list of endpoints and every
  configuration, \<^verbatim>\<open>getWrongEndpoints\<close> returns, in their order, exactly the endpoints that
  match the pattern and whose id is the local \<^verbatim>\<open>uuid\<close> (the ones to remove). Removing
  what it returns from the list leaves the other endpoints unchanged, and on a list
  with no endpoint of this node it returns the empty list, so that nothing is removed.
\<close>

theorem getWrongEndpoints_returns_own:
  "getWrongEndpoints re eps cf = filter (\<lambda>ep. \<exists>c m. ws2p cf = Some c \<and> re ep = Some m \<and> js_index m 1 = uuid c) eps
   \<and> filter (\<lambda>ep. ep \<notin> set (getWrongEndpoints re eps cf)) eps
       = filter (\<lambda>ep. \<not> (\<exists>c m. ws2p cf = Some c \<and> re ep = Some m \<and> js_index m 1 = uuid c)) eps
   \<and> ((\<forall>ep \<in> set eps. \<not> (\<exists>c m. ws2p cf = Some c \<and> re ep = Some m \<and> js_index m 1 = uuid c))
        \<longrightarrow> getWrongEndpoints re eps cf = [])"
proof -
  have own: "isWrongEndpoint re cf = (\<lambda>ep. \<exists>c m. ws2p cf = Some c \<and> re ep = Some m \<and> js_index m 1 = uuid c)"
    by (auto simp: isWrongEndpoint_def fun_eq_iff split: option.splits)
  have 1: "getWrongEndpoints re eps cf = filter (isWrongEndpoint re cf) eps"
    by (simp add: getWrongEndpoints_def)
  have 2: "filter (\<lambda>ep. ep \<notin> set (getWrongEndpoints re eps cf)) eps = filter (\<lambda>ep. \<not> isWrongEndpoint re cf ep) eps"
    by (rule filter_cong) (auto simp: getWrongEndpoints_def)
  have 3: "(\<forall>ep \<in> set eps. \<not> isWrongEndpoint re cf ep) \<longrightarrow> getWrongEndpoints re eps cf = []"
    by (simp add: getWrongEndpoints_def filter_empty_conv)
  show ?thesis
    using 1 2 3 unfolding own by blast
qed

theorem getWrongEndpoints_returns_own_witness:
  "getWrongEndpoints WS2P_REGEXP [own_ep, foreign_ep] cf_upnp = [own_ep]
   \<and> filter (\<lambda>ep. ep \<notin> set (getWrongEndpoints WS2P_REGEXP [own_ep, foreign_ep] cf_upnp))
        [own_ep, foreign_ep] = [foreign_ep]
   \<and> getWrongEndpoints WS2P_REGEXP [foreign_ep] cf_upnp = []"
proof -
  have o: "WS2P_REGEXP own_ep = Some [own_ep, ''abcdef01'', ''g1.duniter.org'', ''20901'']"
    and f: "WS2P_REGEXP foreign_ep
              = Some [foreign_ep, ''0f1e2d3c'', ''g1.monnaielibreoccitanie.org'', ''443'']"
    by (simp_all add: WS2P_REGEXP_def is_digit_def own_ep_def foreign_ep_def)
  have c: "ws2p cf_upnp = Some conf_base" and u: "uuid conf_base = Some ''abcdef01''"
    by (simp_all add: cf_upnp_def conf_base_def)
  have ne: "foreign_ep \<noteq> own_ep"
    by (simp add: own_ep_def foreign_ep_def)
  show ?thesis
    using getWrongEndpoints_returns_own [of WS2P_REGEXP "[own_ep, foreign_ep]" cf_upnp]
      getWrongEndpoints_returns_own [of WS2P_REGEXP "[foreign_ep]" cf_upnp]
    by (simp add: o f c u ne js_index_def)
qed

section \<open>A gateway without a mapping\<close>

text \<open>
  Claim C5. With \<^verbatim>\<open>publicAccess\<close> and \<^verbatim>\<open>upnp\<close> true, when the helper is constructed and
  its \<^verbatim>\<open>startRegular\<close> reports \<^verbatim>\<open>available: false\<close>: \<^verbatim>\<open>startService\<close> resolves, never
  calls \<^verbatim>\<open>listen\<close> and leaves the listener as it was, \<^verbatim>\<open>getEndpoint\<close> then returns the
  empty string, and with \<^verbatim>\<open>privateAccess\<close> true \<^verbatim>\<open>startCrawling\<close> is called.
\<close>

theorem startService_upnp_unavailable:
  assumes "ws2p (conf s) = Some c" and "publicAccess c = Some True" and "upnp c = Some True"
    and "upnp_new_outcome e = None" and "startRegular_outcome e = Unavailable"
  shows "rejected (startService e s) = None
       \<and> (\<forall>h p. Listen h p \<notin> set (calls (startService e s)))
       \<and> listener (cluster (after (startService e s))) = listener (cluster s)
       \<and> getEndpoint (after (startService e s)) = []
       \<and> (truthy_bool (privateAccess c) \<longrightarrow>
            StartCrawling \<in> set (calls (startService e s))
            \<and> crawling (cluster (after (startService e s))))"
  using assms
  by (auto simp: startService_def public_access_def private_access_def manual_def
      upnp_access_def upnp_try_def stop_existing_def startRegular_def getEndpoint_def
      getCurrentConfig_def new_WS2PUpnp_def startCrawling_def Let_def
      split: option.splits sum.splits prod.splits)

theorem startService_upnp_unavailable_witness:
  "rejected (startService env_unavailable (new_WS2PAPI cf_upnp cf_upnp)) = None
   \<and> listener (cluster (after (startService env_unavailable (new_WS2PAPI cf_upnp cf_upnp)))) = None
   \<and> getEndpoint (after (startService env_unavailable (new_WS2PAPI cf_upnp cf_upnp))) = []
   \<and> StartCrawling \<in> set (calls (startService env_unavailable (new_WS2PAPI cf_upnp cf_upnp)))"
proof -
  have a: "ws2p (conf (new_WS2PAPI cf_upnp cf_upnp)) = Some conf_base"
    and l: "listener (cluster (new_WS2PAPI cf_upnp cf_upnp)) = None"
    by (simp_all add: new_WS2PAPI_def cf_upnp_def plugOn_def)
  have b: "publicAccess conf_base = Some True" and c: "upnp conf_base = Some True"
    and p: "truthy_bool (privateAccess conf_base)"
    by (simp_all add: conf_base_def)
  have d: "upnp_new_outcome env_unavailable = None"
    and e: "startRegular_outcome env_unavailable = Unavailable"
    by (simp_all add: env_unavailable_def)
  show ?thesis
    using startService_upnp_unavailable [OF a b c d e] l p by simp
qed

section \<open>Stopping twice\<close>

text \<open>
  Claim C7. \<^verbatim>\<open>stopService\<close> resolves, a second \<^verbatim>\<open>stopService\<close> right after it resolves
  too, and the second call leaves the object as the first one left it.
\<close>

theorem stopService_idempotent:
  "rejected (stopService s) = None
   \<and> rejected (stopService (after (stopService s))) = None
   \<and> after (stopService (after (stopService s))) = after (stopService s)"
  by (simp add: stopService_def Let_def close_def stopCrawling_def stopRegular_def split: option.splits)

theorem stopService_idempotent_witness:
  "after (stopService (after (stopService (after (startService env_mapped (new_WS2PAPI cf_upnp cf_upnp))))))
     = after (stopService (after (startService env_mapped (new_WS2PAPI cf_upnp cf_upnp))))"
  using stopService_idempotent [of "after (startService env_mapped (new_WS2PAPI cf_upnp cf_upnp))"]
  by simp

section \<open>Saving and loading the configuration\<close>

lemma beforeSave_ws2p_fields:
  "beforeSave_ws2p c =
     c\<lparr>host := (if truthy_str (host c) then host c else None),
       port := (if truthy_num (port c) then port c else None),
       remoteport := (if truthy_num (remoteport c) then remoteport c else None),
       remotehost := (if truthy_str (remotehost c) then remotehost c else None)\<rparr>"
  by (simp add: beforeSave_ws2p_def Let_def)

text \<open>
  Claim C8. \<^verbatim>\<open>beforeSave\<close> leaves a configuration without \<^verbatim>\<open>ws2p\<close> as it is. Otherwise
  each of \<^verbatim>\<open>host\<close>, \<^verbatim>\<open>port\<close>, \<^verbatim>\<open>remoteport\<close>, \<^verbatim>\<open>remotehost\<close> is removed exactly when it
  is falsy (unset, the empty string, the number 0 or \<^verbatim>\<open>NaN\<close>) and kept as it is
  otherwise, so neither host is saved as an empty string; every other property of
  \<^verbatim>\<open>ws2p\<close> and of the configuration is unchanged.
\<close>

theorem beforeSave_omits_falsy:
  "(ws2p cf = None \<longrightarrow> beforeSave cf = cf) \<and>
   (\<forall>c. ws2p cf = Some c \<longrightarrow>
      (\<exists>c'. beforeSave cf = cf\<lparr>ws2p := Some c'\<rparr>
        \<and> host c' = (if truthy_str (host c) then host c else None)
        \<and> port c' = (if truthy_num (port c) then port c else None)
        \<and> remoteport c' = (if truthy_num (remoteport c) then remoteport c else None)
        \<and> remotehost c' = (if truthy_str (remotehost c) then remotehost c else None)
        \<and> host c' \<noteq> Some [] \<and> remotehost c' \<noteq> Some []
        \<and> uuid c' = uuid c \<and> privateAccess c' = privateAccess c
        \<and> publicAccess c' = publicAccess c \<and> upnp c' = upnp c
        \<and> maxPrivate c' = maxPrivate c \<and> maxPublic c' = maxPublic c
        \<and> preferedNodes c' = preferedNodes c \<and> privilegedNodes c' = privilegedNodes c))
   \<and> WS2PConfDTO.more (beforeSave cf) = WS2PConfDTO.more cf"
  by (auto simp: beforeSave_def beforeSave_ws2p_fields split: option.splits)

theorem beforeSave_omits_falsy_witness:
  "host (the (ws2p (beforeSave cf_blank))) = None
   \<and> port (the (ws2p (beforeSave cf_blank))) = None
   \<and> remotehost (the (ws2p (beforeSave cf_blank))) = Some ''g1.duniter.org''
   \<and> remoteport (the (ws2p (beforeSave cf_blank))) = Some (Num 20901)
   \<and> uuid (the (ws2p (beforeSave cf_blank))) = Some ''abcdef01''
   \<and> beforeSave cf_absent = cf_absent"
proof -
  have a: "ws2p cf_blank = Some conf_blank" and n: "ws2p cf_absent = None"
    by (simp_all add: cf_blank_def cf_absent_def)
  have f: "host conf_blank = Some []" "port conf_blank = Some (Num 0)"
    "remotehost conf_blank = Some ''g1.duniter.org''" "remoteport conf_blank = Some (Num 20901)"
    "uuid conf_blank = Some ''abcdef01''"
    by (simp_all add: conf_blank_def conf_base_def)
  from beforeSave_omits_falsy [of cf_blank] a obtain c' where
    "beforeSave cf_blank = cf_blank\<lparr>ws2p := Some c'\<rparr>"
    "host c' = (if truthy_str (host conf_blank) then host conf_blank else None)"
    "port c' = (if truthy_num (port conf_blank) then port conf_blank else None)"
    "remoteport c' = (if truthy_num (remoteport conf_blank) then remoteport conf_blank else None)"
    "remotehost c' = (if truthy_str (remotehost conf_blank) then remotehost conf_blank else None)"
    "uuid c' = uuid conf_blank"
    by blast
  then show ?thesis
    using beforeSave_omits_falsy [of cf_absent] n f by simp
qed

lemma uuid_apply_options: "uuid (apply_options p c) = uuid c"
  by (simp add: apply_options_def Let_def split: option.splits)

lemma uuid_apply_prefered: "uuid (apply_prefered p c) = uuid c"
  by (simp add: apply_prefered_def Let_def split: option.splits)

lemma uuid_apply_privileged: "uuid (apply_privileged p c) = uuid c"
  by (simp add: apply_privileged_def Let_def split: option.splits)

lemma uuid_default_upnp: "uuid (default_upnp c) = uuid c"
  by (simp add: default_upnp_def)

lemma uuid_fill_missing:
  "uuid (fill_missing v4 c) = (if truthy_str (uuid c) then uuid c else Some (fresh_uuid v4))"
  by (simp add: fill_missing_def Let_def)

lemma uuid_onLoading:
  "\<exists>c'. ws2p (onLoading v4a v4b p cf) = Some c' \<and>
     uuid c' = (case ws2p cf of
                  None \<Rightarrow> (if fresh_uuid v4a \<noteq> [] then Some (fresh_uuid v4a) else Some (fresh_uuid v4b))
                | Some c \<Rightarrow> (if truthy_str (uuid c) then uuid c else Some (fresh_uuid v4b)))"
  by (simp add: onLoading_def Let_def uuid_apply_options uuid_apply_prefered
      uuid_apply_privileged uuid_default_upnp uuid_fill_missing default_ws2p_def
      split: option.splits)

text \<open>
  Claim C9. \<^verbatim>\<open>onLoading\<close> keeps an identifier that is present (a non-empty string)
  whatever the command-line options are. When \<^verbatim>\<open>ws2p\<close> is absent, or its identifier is
  unset or empty, the identifier becomes the first 8 characters of a newly generated
  UUID (the generator returns at least 8 characters).
\<close>

theorem onLoading_keeps_uuid:
  assumes "8 \<le> length v4a" and "8 \<le> length v4b"
  shows "\<exists>c'. ws2p (onLoading v4a v4b p cf) = Some c' \<and>
     (\<forall>c u. ws2p cf = Some c \<and> uuid c = Some u \<and> u \<noteq> [] \<longrightarrow> uuid c' = Some u) \<and>
     (ws2p cf = None \<longrightarrow> uuid c' = Some (take 8 v4a) \<and> length (take 8 v4a) = 8) \<and>
     (\<forall>c. ws2p cf = Some c \<and> \<not> truthy_str (uuid c) \<longrightarrow>
         uuid c' = Some (take 8 v4b) \<and> length (take 8 v4b) = 8)"
proof -
  from uuid_onLoading [of v4a v4b p cf] obtain c' where
    c': "ws2p (onLoading v4a v4b p cf) = Some c'"
    and u: "uuid c' = (case ws2p cf of
                  None \<Rightarrow> (if fresh_uuid v4a \<noteq> [] then Some (fresh_uuid v4a) else Some (fresh_uuid v4b))
                | Some c \<Rightarrow> (if truthy_str (uuid c) then uuid c else Some (fresh_uuid v4b)))"
    by blast
  have la: "length (take 8 v4a) = 8" and lb: "length (take 8 v4b) = 8"
    using assms by simp_all
  have na: "fresh_uuid v4a \<noteq> []"
    using la by (auto simp: fresh_uuid_def)
  show ?thesis
    using c' u la lb na by (auto simp: fresh_uuid_def)
qed

theorem onLoading_keeps_uuid_witness:
  "uuid (the (ws2p (onLoading v4_sample v4_sample no_options cf_upnp))) = Some ''abcdef01''
   \<and> uuid (the (ws2p (onLoading v4_sample v4_sample no_options cf_absent))) = Some ''110ec58a''"
proof -
  have l: "8 \<le> length v4_sample" and t: "take 8 v4_sample = ''110ec58a''"
    by (simp_all add: v4_sample_def)
  have a: "ws2p cf_upnp = Some conf_base" and n: "ws2p cf_absent = None"
    and u: "uuid conf_base = Some ''abcdef01''"
    by (simp_all add: cf_upnp_def cf_absent_def conf_base_def)
  show ?thesis
    using onLoading_keeps_uuid [OF l l, of no_options cf_upnp]
      onLoading_keeps_uuid [OF l l, of no_options cf_absent] a n u t
    by auto
qed

section \<open>One renewal schedule\<close>

lemma released_idle_new: "released_idle (new_WS2PAPI sc cf)"
  by (simp add: released_idle_def new_WS2PAPI_def)

lemma released_idle_stop_existing: "released_idle s \<Longrightarrow> released_idle (snd (stop_existing s))"
  by (simp add: released_idle_def stop_existing_def split: option.splits)

lemma stop_existing_idle:
  "upnpAPI (snd (stop_existing s)) = None \<or> (\<exists>h. upnpAPI (snd (stop_existing s)) = Some h \<and> \<not> renewal h)"
  by (simp add: stop_existing_def stopRegular_def split: option.splits)

lemma released_idle_upnp_try:
  assumes "released_idle s" and "upnpAPI s = None \<or> (\<exists>h. upnpAPI s = Some h \<and> \<not> renewal h)"
  shows "released_idle (after (upnp_try e s))"
  using assms
  by (auto simp: released_idle_def upnp_try_def Let_def
      split: option.splits sum.splits prod.splits if_splits)

lemma after_upnp_access: "after (upnp_access e s) = after (upnp_try e (snd (stop_existing s)))"
  by (simp add: upnp_access_def split: prod.splits option.splits)

lemma released_idle_upnp_access: "released_idle s \<Longrightarrow> released_idle (after (upnp_access e s))"
  using released_idle_upnp_try [OF released_idle_stop_existing stop_existing_idle, of s e]
  by (simp add: after_upnp_access)

lemma released_public_access:
  "released_idle s \<Longrightarrow> released_idle (after (public_access e s))"
  using released_idle_upnp_access [of s e]
  by (auto simp: public_access_def manual_access_def released_idle_def Let_def
      split: option.splits sum.splits)

lemma released_idle_startService: "released_idle s \<Longrightarrow> released_idle (after (startService e s))"
  using released_public_access [of s e]
  by (auto simp: startService_def private_access_def released_idle_def
      split: prod.splits option.splits)

lemma released_idle_stopService: "released_idle s \<Longrightarrow> released_idle (after (stopService s))"
  by (simp add: stopService_def released_idle_def Let_def split: option.splits)

lemma released_idle_run: "released_idle s \<Longrightarrow> released_idle (run cs s)"
proof (induction cs arbitrary: s)
  case Nil
  then show ?case by simp
next
  case (Cons a cs)
  then show ?case
    by (cases a) (simp_all add: released_idle_startService released_idle_stopService)
qed

lemma released_idle_active: "released_idle s \<Longrightarrow> active_renewals s \<le> 1"
proof -
  assume "released_idle s"
  then have "filter renewal (released s) = []"
    by (simp add: released_idle_def list_all_iff filter_empty_conv)
  then show ?thesis
    by (simp add: active_renewals_def split: option.splits)
qed

lemma stop_existing_none_active:
  "released_idle s \<Longrightarrow> active_renewals (snd (stop_existing s)) = 0"
proof -
  assume a: "released_idle s"
  have "filter renewal (released (snd (stop_existing s))) = []"
    using released_idle_stop_existing [OF a]
    by (simp add: released_idle_def list_all_iff filter_empty_conv)
  then show ?thesis
    using stop_existing_idle [of s]
    by (auto simp: active_renewals_def split: option.splits)
qed

lemma upnp_access_calls:
  assumes "upnpAPI s = Some old"
  shows "\<exists>rest. fst (snd (upnp_access e s)) = StopRegular # NewUpnp # rest
           \<and> (upnp_new_outcome e = None \<longrightarrow> (\<exists>rest'. rest = StartRegular # rest'))"
  using assms
  by (auto simp: upnp_access_def upnp_try_def stop_existing_def Let_def
      split: option.splits sum.splits prod.splits if_splits)

text \<open>
  Claim C10. In any state reached from the constructor by calls of \<^verbatim>\<open>startService\<close> and
  \<^verbatim>\<open>stopService\<close>, when \<^verbatim>\<open>startService\<close> takes the UPnP branch and a helper exists, the
  first call is \<^verbatim>\<open>stopRegular\<close> on that helper, then the new helper is constructed, then
  (when the constructor returns) started. At most one renewal schedule is active
  before the call, none after the existing helper is stopped, and at most one after
  the call.
\<close>

theorem startService_single_renewal:
  assumes "s = run cs (new_WS2PAPI sc cf)"
    and "ws2p (conf s) = Some c" and "truthy_bool (publicAccess c)"
    and "\<not> manual c" and "upnp c \<noteq> Some False"
    and "upnpAPI s = Some old"
  shows "(\<exists>rest. calls (startService e s) = StopRegular # NewUpnp # rest
            \<and> (upnp_new_outcome e = None \<longrightarrow> (\<exists>rest'. rest = StartRegular # rest')))
       \<and> active_renewals s \<le> 1
       \<and> active_renewals (snd (stop_existing s)) = 0
       \<and> active_renewals (after (startService e s)) \<le> 1"
proof -
  have idle: "released_idle s"
    using assms(1) released_idle_run [OF released_idle_new] by simp
  have pub: "public_access e s = upnp_access e s"
    using assms(2-5) by (simp add: public_access_def)
  have "calls (startService e s) = calls (upnp_access e s) @ fst (private_access (after (upnp_access e s)))"
    by (simp add: startService_def pub upnp_access_def split: prod.splits option.splits)
  with upnp_access_calls [OF assms(6), of e]
  have tr: "\<exists>rest. calls (startService e s) = StopRegular # NewUpnp # rest
            \<and> (upnp_new_outcome e = None \<longrightarrow> (\<exists>rest'. rest = StartRegular # rest'))"
    by auto
  show ?thesis
    using tr released_idle_active [OF idle] stop_existing_none_active [OF idle]
      released_idle_active [OF released_idle_startService [OF idle]]
    by blast
qed

theorem startService_single_renewal_witness:
  "take 3 (calls (startService env_unavailable (run [Start env_mapped] (new_WS2PAPI cf_upnp cf_upnp))))
     = [StopRegular, NewUpnp, StartRegular]
   \<and> active_renewals (after (startService env_unavailable
         (run [Start env_mapped] (new_WS2PAPI cf_upnp cf_upnp)))) \<le> 1"
proof -
  have s: "run [Start env_mapped] (new_WS2PAPI cf_upnp cf_upnp)
             = \<lparr> conf = cf_upnp, server_conf = cf_upnp,
                 cluster = \<lparr> listener = Some (''192.168.1.10'', Num 20901), crawling = True, connections = [] \<rparr>,
                 upnpAPI = Some \<lparr> currentConfig = Some binding0, renewal = True \<rparr>,
                 released = [] \<rparr>"
    by (simp add: startService_defs cf_upnp_def conf_base_def env_mapped_def binding0_def)
  have a: "ws2p (conf (run [Start env_mapped] (new_WS2PAPI cf_upnp cf_upnp))) = Some conf_base"
    and o: "upnpAPI (run [Start env_mapped] (new_WS2PAPI cf_upnp cf_upnp))
              = Some \<lparr> currentConfig = Some binding0, renewal = True \<rparr>"
    unfolding s by (simp_all add: cf_upnp_def)
  have b: "truthy_bool (publicAccess conf_base)" and c: "\<not> manual conf_base"
    and d: "upnp conf_base \<noteq> Some False"
    by (simp_all add: conf_base_def manual_def)
  have e: "upnp_new_outcome env_unavailable = None"
    by (simp add: env_unavailable_def)
  show ?thesis
    using startService_single_renewal [OF refl a b c d o, of env_unavailable] e
    by auto
qed

end
